theory Spec2Isabelle
  imports Complex_Main
begin

section \<open>Hotstar scaling simulation: the tick generator and its control actions\<close>

text \<open>
  The development embeds the simulation core of \<^verbatim>\<open>src/app/page.tsx\<close>: the component
  state (the six \<^verbatim>\<open>useState\<close> cells and the pending \<^verbatim>\<open>setTimeout\<close> callbacks), the
  per-tick function \<^verbatim>\<open>generateMetrics\<close> and the four control handlers.

  JavaScript numbers are modelled as exact reals: \<^verbatim>\<open>Math.floor\<close> and \<^verbatim>\<open>Math.ceil\<close> are
  \<^term>\<open>floor\<close> and \<^term>\<open>ceiling\<close>, and the rounding of IEEE doubles is not part of the
  model. Quantities the source only ever stores as integers (pod counts, the fields of a
  sample) are of type \<^typ>\<open>int\<close>. The wall-clock timestamp and the draw of
  \<^verbatim>\<open>Math.random()\<close> are parameters of a tick.
\<close>

subsection \<open>Data model\<close>

record MetricData =
  timestamp :: string
  requests :: int
  cacheHits :: int
  cacheMisses :: int
  pods :: int
  cpuUsage :: int
  responseTime :: int
  activeUsers :: int

datatype Level = INFO | WARN | ERROR | CRITICAL

datatype Component = API | CACHE | K8S | LB | INFRA

record LogEntry =
  logTimestamp :: string
  level :: Level
  component :: Component
  message :: string

text \<open>
  The component state. \<open>timeouts\<close> holds the delays (in milliseconds) of the
  \<^verbatim>\<open>setTimeout\<close> callbacks that are scheduled and have not fired yet, oldest first; every
  such callback in the source is \<^verbatim>\<open>() => setCurrentLoad(800000)\<close>.
\<close>

record SimState =
  isRunning :: bool
  currentLoad :: real
  metrics :: "MetricData list"
  logs :: "LogEntry list"
  statePods :: int
  cacheHitRate :: real
  timeouts :: "nat list"

definition initialState :: SimState where
  "initialState =
     \<lparr>isRunning = False, currentLoad = 150000, metrics = [], logs = [],
      statePods = 50, cacheHitRate = 92, timeouts = []\<rparr>"

subsection \<open>Rendering integers in template strings\<close>

text \<open>
  Every number interpolated into a log message is an integer; JavaScript prints an
  integer of magnitude below \<open>10\<^sup>2\<^sup>1\<close> in plain decimal, which is what
  \<open>numberToString\<close> does.
\<close>

fun natToString :: "nat \<Rightarrow> string" where
  "natToString n =
     (if n < 10 then [char_of (48 + n)]
      else natToString (n div 10) @ [char_of (48 + n mod 10)])"

declare natToString.simps [simp del]

definition numberToString :: "int \<Rightarrow> string" where
  "numberToString i = (if i < 0 then CHR ''-'' # natToString (nat (- i)) else natToString (nat i))"

subsection \<open>The local constants of \<^verbatim>\<open>generateMetrics\<close>\<close>

text \<open>Line 74: \<^verbatim>\<open>requests = baseRequests + Math.random() * 50000\<close>.\<close>

definition tickRequests :: "real \<Rightarrow> SimState \<Rightarrow> real" where
  "tickRequests rnd s = currentLoad s + rnd * 50000"

text \<open>Line 77: \<^verbatim>\<open>hitRate = Math.max(88, cacheHitRate - (currentLoad / 1000000) * 5)\<close>.\<close>

definition tickHitRate :: "SimState \<Rightarrow> real" where
  "tickHitRate s = max 88 (cacheHitRate s - (currentLoad s / 1000000) * 5)"

text \<open>Lines 78 and 79.\<close>

definition tickCacheHits :: "real \<Rightarrow> SimState \<Rightarrow> int" where
  "tickCacheHits rnd s = \<lfloor>tickRequests rnd s * (tickHitRate s / 100)\<rfloor>"

definition tickCacheMisses :: "real \<Rightarrow> SimState \<Rightarrow> int" where
  "tickCacheMisses rnd s = \<lfloor>tickRequests rnd s - of_int (tickCacheHits rnd s)\<rfloor>"

text \<open>Lines 82 and 83.\<close>

definition targetPods :: "real \<Rightarrow> SimState \<Rightarrow> int" where
  "targetPods rnd s = \<lceil>tickRequests rnd s / 3000\<rceil>"

definition newPods :: "real \<Rightarrow> SimState \<Rightarrow> int" where
  "newPods rnd s = min (max 50 (targetPods rnd s)) 2500"

text \<open>Line 87.\<close>

definition tickCpuUsage :: "real \<Rightarrow> SimState \<Rightarrow> real" where
  "tickCpuUsage rnd s = min 95 ((tickRequests rnd s / (of_int (newPods rnd s) * 3000)) * 100)"

text \<open>Lines 90 to 93.\<close>

definition baseResponseTime :: real where
  "baseResponseTime = 45"

definition loadFactor :: "real \<Rightarrow> SimState \<Rightarrow> real" where
  "loadFactor rnd s = max 1 (tickRequests rnd s / 200000)"

definition cacheFactor :: "SimState \<Rightarrow> real" where
  "cacheFactor s = tickHitRate s / 100"

definition tickResponseTime :: "real \<Rightarrow> SimState \<Rightarrow> real" where
  "tickResponseTime rnd s = baseResponseTime * loadFactor rnd s * (2.5 - cacheFactor s)"

text \<open>Line 97.\<close>

definition tickActiveUsers :: "real \<Rightarrow> SimState \<Rightarrow> int" where
  "tickActiveUsers rnd s = \<lfloor>tickRequests rnd s / 3.5\<rfloor>"

text \<open>Lines 99 to 108: the sample of the tick.\<close>

definition newMetric :: "string \<Rightarrow> real \<Rightarrow> SimState \<Rightarrow> MetricData" where
  "newMetric ts rnd s =
     \<lparr>timestamp = ts,
      requests = \<lfloor>tickRequests rnd s\<rfloor>,
      cacheHits = tickCacheHits rnd s,
      cacheMisses = tickCacheMisses rnd s,
      pods = newPods rnd s,
      cpuUsage = \<lfloor>tickCpuUsage rnd s\<rfloor>,
      responseTime = \<lfloor>tickResponseTime rnd s\<rfloor>,
      activeUsers = tickActiveUsers rnd s\<rparr>"

subsection \<open>Log derivation\<close>

text \<open>
  Lines 113 to 167: six independent conditionals, each pushing one entry onto
  \<^verbatim>\<open>newLogs\<close>. Each of the next six definitions is the list that one conditional
  contributes.
\<close>

definition scalingEntry :: "string \<Rightarrow> real \<Rightarrow> SimState \<Rightarrow> LogEntry" where
  "scalingEntry ts rnd s =
     \<lparr>logTimestamp = ts,
      level = (if newPods rnd s > statePods s then INFO else WARN),
      component = K8S,
      message = ''Scaling '' @ (if newPods rnd s > statePods s then ''up'' else ''down'')
        @ '' to '' @ numberToString (newPods rnd s)
        @ '' pods (was '' @ numberToString (statePods s) @ '')''\<rparr>"

definition scalingLog :: "string \<Rightarrow> real \<Rightarrow> SimState \<Rightarrow> LogEntry list" where
  "scalingLog ts rnd s =
     (if newPods rnd s \<noteq> statePods s then [scalingEntry ts rnd s] else [])"

definition cpuLog :: "string \<Rightarrow> real \<Rightarrow> SimState \<Rightarrow> LogEntry list" where
  "cpuLog ts rnd s =
     (if tickCpuUsage rnd s > 80 then
        [\<lparr>logTimestamp = ts, level = WARN, component = K8S,
          message = ''High CPU usage: '' @ numberToString \<lfloor>tickCpuUsage rnd s\<rfloor> @ ''%''\<rparr>]
      else [])"

definition cacheLog :: "string \<Rightarrow> SimState \<Rightarrow> LogEntry list" where
  "cacheLog ts s =
     (if tickHitRate s < 90 then
        [\<lparr>logTimestamp = ts, level = WARN, component = CACHE,
          message = ''Cache hit rate dropped to '' @ numberToString \<lfloor>tickHitRate s\<rfloor>
            @ ''% (critical at IPL scale)''\<rparr>]
      else [])"

definition responseLog :: "string \<Rightarrow> real \<Rightarrow> SimState \<Rightarrow> LogEntry list" where
  "responseLog ts rnd s =
     (if tickResponseTime rnd s > 150 then
        [\<lparr>logTimestamp = ts, level = ERROR, component = API,
          message = ''High response time: '' @ numberToString \<lfloor>tickResponseTime rnd s\<rfloor>
            @ ''ms''\<rparr>]
      else [])"

definition trafficLog :: "string \<Rightarrow> real \<Rightarrow> SimState \<Rightarrow> LogEntry list" where
  "trafficLog ts rnd s =
     (if tickRequests rnd s > 500000 then
        [\<lparr>logTimestamp = ts, level = INFO, component = LB,
          message = ''High traffic detected: ''
            @ numberToString \<lfloor>tickRequests rnd s / 1000\<rfloor> @ ''K req/s''\<rparr>]
      else [])"

definition peakLog :: "string \<Rightarrow> real \<Rightarrow> SimState \<Rightarrow> LogEntry list" where
  "peakLog ts rnd s =
     (if tickRequests rnd s > 2000000 then
        [\<lparr>logTimestamp = ts, level = CRITICAL, component = INFRA,
          message = ''PEAK IPL TRAFFIC: ''
            @ numberToString \<lfloor>tickRequests rnd s / 1000000\<rfloor> @ ''M req/s - ''
            @ numberToString \<lfloor>of_int (tickActiveUsers rnd s) / (10000000::real)\<rfloor>
            @ '' crore users''\<rparr>]
      else [])"

definition otherLogs :: "string \<Rightarrow> real \<Rightarrow> SimState \<Rightarrow> LogEntry list" where
  "otherLogs ts rnd s =
     cpuLog ts rnd s @ cacheLog ts s @ responseLog ts rnd s @ trafficLog ts rnd s
       @ peakLog ts rnd s"

definition newLogs :: "string \<Rightarrow> real \<Rightarrow> SimState \<Rightarrow> LogEntry list" where
  "newLogs ts rnd s = scalingLog ts rnd s @ otherLogs ts rnd s"

subsection \<open>One tick\<close>

text \<open>
  \<^verbatim>\<open>prev.slice(-19)\<close> is the last 19 elements of \<^verbatim>\<open>prev\<close> (all of them when there are
  fewer); \<^verbatim>\<open>prev.slice(0, 49)\<close> is the first 49.
\<close>

definition sliceLast19 :: "'a list \<Rightarrow> 'a list" where
  "sliceLast19 prev = drop (length prev - 19) prev"

definition sliceFirst49 :: "'a list \<Rightarrow> 'a list" where
  "sliceFirst49 prev = take 49 prev"

text \<open>
  The three state updates of a tick: \<^verbatim>\<open>setPods\<close> (line 84), \<^verbatim>\<open>setMetrics\<close> (line 110)
  and, when some entry was pushed, \<^verbatim>\<open>setLogs\<close> (lines 169 to 171).
\<close>

definition generateMetrics :: "string \<Rightarrow> real \<Rightarrow> SimState \<Rightarrow> SimState" where
  "generateMetrics ts rnd s =
     s\<lparr>statePods := newPods rnd s,
       metrics := sliceLast19 (metrics s) @ [newMetric ts rnd s],
       logs := (if length (newLogs ts rnd s) > 0
                then newLogs ts rnd s @ sliceFirst49 (logs s)
                else logs s)\<rparr>"

subsection \<open>Control actions and the deferred revert\<close>

definition startSimulation :: "SimState \<Rightarrow> SimState" where
  "startSimulation s = s\<lparr>isRunning := True\<rparr>"

definition stopSimulation :: "SimState \<Rightarrow> SimState" where
  "stopSimulation s = s\<lparr>isRunning := False\<rparr>"

definition resetSimulation :: "SimState \<Rightarrow> SimState" where
  "resetSimulation s =
     s\<lparr>isRunning := False, metrics := [], logs := [], statePods := 50, currentLoad := 150000\<rparr>"

definition simulateTrafficSpike :: "SimState \<Rightarrow> SimState" where
  "simulateTrafficSpike s = s\<lparr>currentLoad := 3000000, timeouts := timeouts s @ [15000]\<rparr>"

text \<open>The callback of line 202, run when the oldest pending timeout fires.\<close>

definition timeoutCallback :: "SimState \<Rightarrow> SimState" where
  "timeoutCallback s = s\<lparr>currentLoad := 800000, timeouts := tl (timeouts s)\<rparr>"

subsection \<open>Steps and reachable states\<close>

text \<open>
  A tick happens only while the interval is installed, that is while \<open>isRunning\<close>
  holds (lines 174 to 188), with a draw in \<open>[0, 1)\<close>; the deferred callback runs only
  when one is pending. The handlers themselves carry no guard, so they are steps of
  every state.
\<close>

datatype Event = Start | Stop | Reset | Spike | Timeout | Tick string real

inductive step :: "SimState \<Rightarrow> Event \<Rightarrow> SimState \<Rightarrow> bool" where
  step_start: "step s Start (startSimulation s)"
| step_stop: "step s Stop (stopSimulation s)"
| step_reset: "step s Reset (resetSimulation s)"
| step_spike: "step s Spike (simulateTrafficSpike s)"
| step_timeout: "timeouts s \<noteq> [] \<Longrightarrow> step s Timeout (timeoutCallback s)"
| step_tick: "isRunning s \<Longrightarrow> 0 \<le> rnd \<Longrightarrow> rnd < 1 \<Longrightarrow>
     step s (Tick ts rnd) (generateMetrics ts rnd s)"

inductive reachable :: "SimState \<Rightarrow> bool" where
  reachable_init: "reachable initialState"
| reachable_step: "reachable s \<Longrightarrow> step s e s' \<Longrightarrow> reachable s'"

text \<open>A run of ticks with no control action and no timeout in between.\<close>

fun runTicks :: "(string \<times> real) list \<Rightarrow> SimState \<Rightarrow> SimState" where
  "runTicks [] s = s"
| "runTicks ((ts, rnd) # ds) s = runTicks ds (generateMetrics ts rnd s)"

text \<open>
  The run used below: the simulation is started, the spike button is pressed, and ten
  ticks follow, each with the draw \<open>0\<close>.
\<close>

definition spikeRun :: SimState where
  "spikeRun =
     runTicks
       [(''20:00:01'', 0), (''20:00:02'', 0), (''20:00:03'', 0), (''20:00:04'', 0),
        (''20:00:05'', 0), (''20:00:06'', 0), (''20:00:07'', 0), (''20:00:08'', 0),
        (''20:00:09'', 0), (''20:00:10'', 0)]
       (simulateTrafficSpike (startSimulation initialState))"

text \<open>
  A run that fills the metrics buffer: the simulation is started and twenty ticks follow.
\<close>

definition fullRun :: SimState where
  "fullRun =
     runTicks
       [(''20:00:01'', 0), (''20:00:02'', 0), (''20:00:03'', 0), (''20:00:04'', 0),
        (''20:00:05'', 0), (''20:00:06'', 0), (''20:00:07'', 0), (''20:00:08'', 0),
        (''20:00:09'', 0), (''20:00:10'', 0), (''20:00:11'', 0), (''20:00:12'', 0),
        (''20:00:13'', 0), (''20:00:14'', 0), (''20:00:15'', 0), (''20:00:16'', 0),
        (''20:00:17'', 0), (''20:00:18'', 0), (''20:00:19'', 0), (''20:00:20'', 0)]
       (startSimulation initialState)"

text \<open>
  A log entry reports a change of the pod count when it comes from the K8S component and
  its message starts with \<open>Scaling\<close>; the other K8S entry of a tick reports high CPU
  usage.
\<close>

definition isScalingEntry :: "LogEntry \<Rightarrow> bool" where
  "isScalingEntry e = (component e = K8S \<and> take 8 (message e) = ''Scaling '')"

section \<open>Properties\<close>

subsection \<open>What a tick and a control action leave alone\<close>

lemma generateMetrics_frame:
  "currentLoad (generateMetrics ts rnd s) = currentLoad s"
  "cacheHitRate (generateMetrics ts rnd s) = cacheHitRate s"
  "isRunning (generateMetrics ts rnd s) = isRunning s"
  "timeouts (generateMetrics ts rnd s) = timeouts s"
  by (simp_all add: generateMetrics_def)

lemma statePods_generateMetrics: "statePods (generateMetrics ts rnd s) = newPods rnd s"
  by (simp add: generateMetrics_def)

lemma logs_generateMetrics:
  "logs (generateMetrics ts rnd s)
     = (if newLogs ts rnd s = [] then logs s else newLogs ts rnd s @ take 49 (logs s))"
  by (simp add: generateMetrics_def sliceFirst49_def)

lemma runTicks_frame:
  "currentLoad (runTicks ds s) = currentLoad s \<and> cacheHitRate (runTicks ds s) = cacheHitRate s
   \<and> isRunning (runTicks ds s) = isRunning s \<and> timeouts (runTicks ds s) = timeouts s"
  by (induction ds s rule: runTicks.induct) (simp_all add: generateMetrics_frame)

lemma step_cacheHitRate: "step s e s' \<Longrightarrow> cacheHitRate s' = cacheHitRate s"
  by (induction rule: step.induct)
    (simp_all add: startSimulation_def stopSimulation_def resetSimulation_def
      simulateTrafficSpike_def timeoutCallback_def generateMetrics_frame)

lemma reachable_cacheHitRate: "reachable s \<Longrightarrow> cacheHitRate s = 92"
proof (induction rule: reachable.induct)
  case reachable_init
  show ?case by (simp add: initialState_def)
next
  case (reachable_step s e s')
  then show ?case by (simp add: step_cacheHitRate)
qed

lemma reachable_runTicks:
  "reachable s \<Longrightarrow> isRunning s \<Longrightarrow> list_all (\<lambda>d. 0 \<le> snd d \<and> snd d < 1) ds
     \<Longrightarrow> reachable (runTicks ds s)"
proof (induction ds s rule: runTicks.induct)
  case (1 s)
  then show ?case by simp
next
  case (2 ts rnd ds s)
  from 2(2,3,4) have "reachable (generateMetrics ts rnd s)"
    by (auto intro: reachable_step step_tick)
  with 2 show ?case
    by (simp add: generateMetrics_frame)
qed

lemma reachable_started: "reachable (startSimulation initialState)"
  by (blast intro: reachable.intros step.intros)

lemma reachable_spike_start: "reachable (simulateTrafficSpike (startSimulation initialState))"
  by (blast intro: reachable.intros step.intros)

subsection \<open>Ranges of the values of a tick\<close>

lemma tickRequests_nonneg: "0 \<le> currentLoad s \<Longrightarrow> 0 \<le> rnd \<Longrightarrow> 0 \<le> tickRequests rnd s"
  by (simp add: tickRequests_def)

lemma newPods_range: "50 \<le> newPods rnd s \<and> newPods rnd s \<le> 2500"
  by (simp add: newPods_def)

lemma tickCpuUsage_range:
  assumes "0 \<le> tickRequests rnd s"
  shows "0 \<le> tickCpuUsage rnd s \<and> tickCpuUsage rnd s \<le> 95"
proof -
  have "0 < real_of_int (newPods rnd s) * 3000"
    using newPods_range [of rnd s] by simp
  then have "0 \<le> tickRequests rnd s / (real_of_int (newPods rnd s) * 3000) * 100"
    using assms by simp
  then show ?thesis
    by (simp add: tickCpuUsage_def)
qed

lemma tickHitRate_range:
  assumes "0 \<le> currentLoad s"
  shows "88 \<le> tickHitRate s \<and> tickHitRate s \<le> max 88 (cacheHitRate s)"
  using assms by (simp add: tickHitRate_def max_def)

lemma tickResponseTime_nonneg:
  assumes "0 \<le> currentLoad s" and "cacheHitRate s \<le> 250"
  shows "0 \<le> tickResponseTime rnd s"
proof -
  have "tickHitRate s \<le> 250"
    using tickHitRate_range [OF assms(1)] assms(2) by (simp add: max_def split: if_splits)
  then have "0 \<le> 2.5 - cacheFactor s"
    by (simp add: cacheFactor_def)
  moreover have "0 \<le> loadFactor rnd s"
    by (simp add: loadFactor_def)
  ultimately show ?thesis
    by (simp add: tickResponseTime_def baseResponseTime_def)
qed

subsection \<open>The metrics buffer\<close>

lemma length_sliceLast19: "length (sliceLast19 xs) = min 19 (length xs)"
  by (simp add: sliceLast19_def)

lemma sliceLast19_short: "length xs \<le> 19 \<Longrightarrow> sliceLast19 xs = xs"
  by (simp add: sliceLast19_def)

lemma sliceLast19_full: "length xs = 20 \<Longrightarrow> sliceLast19 xs = tl xs"
  by (simp add: sliceLast19_def drop_Suc)

lemma length_metrics_generateMetrics:
  "length (metrics (generateMetrics ts rnd s)) = min 19 (length (metrics s)) + 1"
  by (simp add: generateMetrics_def length_sliceLast19)

lemma step_metrics_bound: "step s e s' \<Longrightarrow> length (metrics s) \<le> 20 \<Longrightarrow> length (metrics s') \<le> 20"
  by (induction rule: step.induct)
    (simp_all add: startSimulation_def stopSimulation_def resetSimulation_def
      simulateTrafficSpike_def timeoutCallback_def length_metrics_generateMetrics)

lemma reachable_metrics_bound: "reachable s \<Longrightarrow> length (metrics s) \<le> 20"
proof (induction rule: reachable.induct)
  case reachable_init
  show ?case by (simp add: initialState_def)
next
  case (reachable_step s e s')
  then show ?case by (simp add: step_metrics_bound)
qed

text \<open>While the buffer has room, the samples of a run of ticks are appended in order.\<close>

lemma timestamps_generateMetrics:
  "length (metrics s) \<le> 19 \<Longrightarrow>
     map timestamp (metrics (generateMetrics ts rnd s)) = map timestamp (metrics s) @ [ts]"
  by (simp add: generateMetrics_def sliceLast19_short newMetric_def)

lemma timestamps_runTicks:
  "length (metrics s) + length ds \<le> 20 \<Longrightarrow>
     map timestamp (metrics (runTicks ds s)) = map timestamp (metrics s) @ map fst ds"
proof (induction ds s rule: runTicks.induct)
  case (1 s)
  show ?case by simp
next
  case (2 ts rnd ds s)
  from 2(2) have short: "length (metrics s) \<le> 19"
    by simp
  then have "length (metrics (generateMetrics ts rnd s)) + length ds \<le> 20"
    using 2(2) by (simp add: length_metrics_generateMetrics)
  then have "map timestamp (metrics (runTicks ds (generateMetrics ts rnd s)))
      = map timestamp (metrics (generateMetrics ts rnd s)) @ map fst ds"
    by (rule 2(1))
  then show ?case
    by (simp add: timestamps_generateMetrics [OF short])
qed

lemma fullRun_timestamps:
  "map timestamp (metrics fullRun) =
     [''20:00:01'', ''20:00:02'', ''20:00:03'', ''20:00:04'', ''20:00:05'', ''20:00:06'',
      ''20:00:07'', ''20:00:08'', ''20:00:09'', ''20:00:10'', ''20:00:11'', ''20:00:12'',
      ''20:00:13'', ''20:00:14'', ''20:00:15'', ''20:00:16'', ''20:00:17'', ''20:00:18'',
      ''20:00:19'', ''20:00:20'']"
proof -
  have "metrics (startSimulation initialState) = []"
    by (simp add: startSimulation_def initialState_def)
  then show ?thesis
    unfolding fullRun_def by (subst timestamps_runTicks) simp_all
qed

lemma reachable_fullRun: "reachable fullRun"
proof -
  have "isRunning (startSimulation initialState)"
    by (simp add: startSimulation_def)
  with reachable_started show ?thesis
    unfolding fullRun_def by (rule reachable_runTicks) simp
qed

subsection \<open>The log buffer\<close>

lemma length_scalingLog:
  "length (scalingLog ts rnd s) = (if newPods rnd s \<noteq> statePods s then 1 else 0)"
  by (simp add: scalingLog_def)

lemma length_otherLogs_le: "length (otherLogs ts rnd s) \<le> 5"
  by (simp add: otherLogs_def cpuLog_def cacheLog_def responseLog_def trafficLog_def peakLog_def)

lemma length_newLogs_le: "length (newLogs ts rnd s) \<le> 6"
  using length_otherLogs_le [of ts rnd s] by (simp add: newLogs_def length_scalingLog)

text \<open>
  What the code guarantees about the size of the log buffer: a tick keeps 49 old entries
  and puts up to six new ones in front, so no reachable buffer is longer than 55.
\<close>

lemma length_logs_generateMetrics_le:
  "length (logs (generateMetrics ts rnd s)) \<le> max (length (logs s)) 55"
  using length_newLogs_le [of ts rnd s] by (simp add: logs_generateMetrics) arith

lemma step_logs_bound: "step s e s' \<Longrightarrow> length (logs s) \<le> 55 \<Longrightarrow> length (logs s') \<le> 55"
proof (induction rule: step.induct)
  case (step_tick s rnd ts)
  then show ?case
    using length_logs_generateMetrics_le [of ts rnd s] by simp
qed (simp_all add: startSimulation_def stopSimulation_def resetSimulation_def
      simulateTrafficSpike_def timeoutCallback_def)

lemma reachable_logs_bound: "reachable s \<Longrightarrow> length (logs s) \<le> 55"
proof (induction rule: reachable.induct)
  case reachable_init
  show ?case by (simp add: initialState_def)
next
  case (reachable_step s e s')
  then show ?case by (simp add: step_logs_bound)
qed

lemma otherLogs_not_scaling: "filter isScalingEntry (otherLogs ts rnd s) = []"
  by (simp add: otherLogs_def cpuLog_def cacheLog_def responseLog_def trafficLog_def peakLog_def
      isScalingEntry_def)

lemma scalingLog_is_scaling:
  "filter isScalingEntry (scalingLog ts rnd s) = scalingLog ts rnd s"
  by (simp add: scalingLog_def scalingEntry_def isScalingEntry_def)

subsection \<open>A tick at the spike load\<close>

lemma spike_newPods: "currentLoad s = 3000000 \<Longrightarrow> newPods 0 s = 1000"
  by (simp add: newPods_def targetPods_def tickRequests_def)

lemma spike_otherLogs:
  assumes "currentLoad s = 3000000" and "cacheHitRate s = 92"
  shows "length (otherLogs ts 0 s) = 5"
proof -
  have r: "tickRequests 0 s = 3000000"
    using assms by (simp add: tickRequests_def)
  have h: "tickHitRate s = 88"
    using assms by (simp add: tickHitRate_def)
  have c: "tickCpuUsage 0 s = 95"
    using assms by (simp add: tickCpuUsage_def spike_newPods r)
  have t: "tickResponseTime 0 s > 150"
    by (simp add: tickResponseTime_def baseResponseTime_def loadFactor_def cacheFactor_def r h)
  show ?thesis
    using t by (simp add: otherLogs_def cpuLog_def cacheLog_def responseLog_def trafficLog_def
        peakLog_def r h c)
qed

lemma spike_tick_logs:
  assumes "currentLoad s = 3000000" and "cacheHitRate s = 92"
  shows "length (logs (generateMetrics ts 0 s))
    = (if statePods s = 1000 then 5 else 6) + min 49 (length (logs s))"
proof -
  have "length (newLogs ts 0 s) = (if statePods s = 1000 then 5 else 6)"
    using assms by (simp add: newLogs_def length_scalingLog spike_otherLogs spike_newPods)
  moreover from this have "newLogs ts 0 s \<noteq> []"
    by (auto split: if_splits)
  ultimately show ?thesis
    by (simp add: logs_generateMetrics)
qed

subsection \<open>A tick at the base load\<close>

lemma base_requests: "currentLoad s = 150000 \<Longrightarrow> tickRequests 0 s = 150000"
  by (simp add: tickRequests_def)

lemma base_targetPods: "currentLoad s = 150000 \<Longrightarrow> targetPods 0 s = 50"
  by (simp add: targetPods_def tickRequests_def)

lemma base_newPods: "currentLoad s = 150000 \<Longrightarrow> newPods 0 s = 50"
  by (simp add: newPods_def base_targetPods)

lemma half_newPods: "currentLoad s = 150000 \<Longrightarrow> newPods (1/2) s = 59"
  by (simp add: newPods_def targetPods_def tickRequests_def)

lemma numberToString_59: "numberToString 59 = ''59''"
  by code_simp

lemma numberToString_50: "numberToString 50 = ''50''"
  by code_simp

section \<open>The claims\<close>

text \<open>
  C1. The claim: the log buffer never holds more than 50 entries, whatever the number of
  entries fired in one tick. The code keeps the first 49 old entries and puts \<^emph>\<open>all\<close>
  entries of the tick in front of them, so the bound of 50 holds only for a tick that
  fires one entry. The run \<open>spikeRun\<close> (start, spike, ten ticks with draw \<open>0\<close>) is
  reachable and ends with 51 entries in the buffer.
\<close>

theorem logs_exceed_fifty: "reachable spikeRun \<and> length (logs spikeRun) = 51"
proof -
  define s0 where "s0 = simulateTrafficSpike (startSimulation initialState)"
  have base: "isRunning s0" "currentLoad s0 = 3000000" "cacheHitRate s0 = 92"
    "statePods s0 = 50" "logs s0 = []"
    by (simp_all add: s0_def simulateTrafficSpike_def startSimulation_def initialState_def)
  have run: "spikeRun =
     runTicks
       [(''20:00:01'', 0), (''20:00:02'', 0), (''20:00:03'', 0), (''20:00:04'', 0),
        (''20:00:05'', 0), (''20:00:06'', 0), (''20:00:07'', 0), (''20:00:08'', 0),
        (''20:00:09'', 0), (''20:00:10'', 0)] s0"
    by (simp only: spikeRun_def s0_def)
  have "reachable s0"
    unfolding s0_def by (rule reachable_spike_start)
  then have "reachable spikeRun"
    unfolding run using base(1) by (rule reachable_runTicks) simp
  moreover have "length (logs spikeRun) = 51"
    unfolding run using base
    by (simp add: spike_tick_logs generateMetrics_frame statePods_generateMetrics spike_newPods)
  ultimately show ?thesis ..
qed

text \<open>
  C2. In every sample, cache hits and cache misses add up to the \<open>requests\<close> field, which
  is the floor of the raw request count \<open>currentLoad + random * 50000\<close>. This holds for
  every state and every draw.
\<close>

theorem cache_partition:
  "cacheHits (newMetric ts rnd s) + cacheMisses (newMetric ts rnd s) = requests (newMetric ts rnd s)
   \<and> requests (newMetric ts rnd s) = \<lfloor>currentLoad s + rnd * 50000\<rfloor>"
  by (simp add: newMetric_def tickCacheMisses_def tickRequests_def)

text \<open>
  C3. For a non-negative load and a draw in \<open>[0, 1)\<close>, the sample of the tick has
  \<open>50 \<le> pods \<le> 2500\<close> and \<open>0 \<le> cpuUsage \<le> 95\<close>.
\<close>

theorem pods_cpu_bounds:
  assumes "0 \<le> currentLoad s" and "0 \<le> rnd" and "rnd < 1"
  shows "50 \<le> pods (newMetric ts rnd s) \<and> pods (newMetric ts rnd s) \<le> 2500
    \<and> 0 \<le> cpuUsage (newMetric ts rnd s) \<and> cpuUsage (newMetric ts rnd s) \<le> 95"
proof -
  have "0 \<le> tickRequests rnd s"
    using assms(1,2) by (rule tickRequests_nonneg)
  then have "0 \<le> tickCpuUsage rnd s \<and> tickCpuUsage rnd s \<le> 95"
    by (rule tickCpuUsage_range)
  then have "0 \<le> \<lfloor>tickCpuUsage rnd s\<rfloor>" and "\<lfloor>tickCpuUsage rnd s\<rfloor> \<le> 95"
    by (simp_all add: floor_le_iff)
  then show ?thesis
    using newPods_range [of rnd s] by (simp add: newMetric_def)
qed

theorem pods_cpu_bounds_witness:
  "0 \<le> currentLoad initialState \<and> (0::real) \<le> 1/2 \<and> (1/2::real) < 1
   \<and> pods (newMetric ''20:00:00'' (1/2) initialState) = 59
   \<and> 50 \<le> pods (newMetric ''20:00:00'' (1/2) initialState)
   \<and> pods (newMetric ''20:00:00'' (1/2) initialState) \<le> 2500
   \<and> 0 \<le> cpuUsage (newMetric ''20:00:00'' (1/2) initialState)
   \<and> cpuUsage (newMetric ''20:00:00'' (1/2) initialState) \<le> 95"
proof -
  have l: "currentLoad initialState = 150000"
    by (simp add: initialState_def)
  have p: "pods (newMetric ''20:00:00'' (1/2) initialState) = 59"
    by (simp add: newMetric_def half_newPods l)
  have h: "0 \<le> currentLoad initialState"
    by (simp add: l)
  show ?thesis
    using h p pods_cpu_bounds [OF h, of "1/2" "''20:00:00''"] by simp
qed

text \<open>
  C4. Whatever the state before, \<open>resetSimulation\<close> yields \<open>isRunning = False\<close>,
  \<open>currentLoad = 150000\<close>, \<open>pods = 50\<close> and two empty histories.
\<close>

theorem reset_state:
  "isRunning (resetSimulation s) = False \<and> currentLoad (resetSimulation s) = 150000
   \<and> statePods (resetSimulation s) = 50 \<and> metrics (resetSimulation s) = []
   \<and> logs (resetSimulation s) = []"
  by (simp add: resetSimulation_def)

text \<open>
  C5. After the spike step the load is 3000000; it stays so through any run of ticks;
  the deferred callback is then pending, and the step in which it fires leaves the load
  at 800000. The delay of 15 seconds is carried as data of the pending timeout; the
  step relation does not measure time.
\<close>

theorem spike_then_revert:
  assumes "step s Spike s1"
  shows "currentLoad s1 = 3000000
    \<and> timeouts s1 = timeouts s @ [15000]
    \<and> currentLoad (runTicks ds s1) = 3000000
    \<and> (\<exists>s3. step (runTicks ds s1) Timeout s3)
    \<and> (\<forall>s3. step (runTicks ds s1) Timeout s3 \<longrightarrow> currentLoad s3 = 800000)"
proof -
  from assms have s1: "s1 = simulateTrafficSpike s"
    by (cases rule: step.cases) simp
  have load: "currentLoad s1 = 3000000" and sched: "timeouts s1 = timeouts s @ [15000]"
    by (simp_all add: s1 simulateTrafficSpike_def)
  have "timeouts (runTicks ds s1) \<noteq> []"
    by (simp add: runTicks_frame sched)
  then have "step (runTicks ds s1) Timeout (timeoutCallback (runTicks ds s1))"
    by (rule step_timeout)
  then have ex: "\<exists>s3. step (runTicks ds s1) Timeout s3" ..
  have "currentLoad s3 = 800000" if "step (runTicks ds s1) Timeout s3" for s3
    using that by (cases rule: step.cases) (simp add: timeoutCallback_def)
  with load sched ex show ?thesis
    by (simp add: runTicks_frame)
qed

theorem spike_then_revert_witness:
  "step (startSimulation initialState) Spike (simulateTrafficSpike (startSimulation initialState))
   \<and> currentLoad (simulateTrafficSpike (startSimulation initialState)) = 3000000
   \<and> step (runTicks [(''20:00:01'', 0)] (simulateTrafficSpike (startSimulation initialState)))
       Timeout
       (timeoutCallback
         (runTicks [(''20:00:01'', 0)] (simulateTrafficSpike (startSimulation initialState))))
   \<and> currentLoad
       (timeoutCallback
         (runTicks [(''20:00:01'', 0)] (simulateTrafficSpike (startSimulation initialState))))
     = 800000"
proof -
  let ?s = "startSimulation initialState"
  let ?s2 = "runTicks [(''20:00:01'', 0)] (simulateTrafficSpike ?s)"
  have h: "step ?s Spike (simulateTrafficSpike ?s)"
    by (rule step_spike)
  have "timeouts ?s2 \<noteq> []"
    by (simp add: generateMetrics_frame simulateTrafficSpike_def)
  then have t: "step ?s2 Timeout (timeoutCallback ?s2)"
    by (rule step_timeout)
  from spike_then_revert [OF h, of "[(''20:00:01'', 0)]"] t
  have "currentLoad (simulateTrafficSpike ?s) = 3000000
    \<and> currentLoad (timeoutCallback ?s2) = 800000"
    by blast
  with h t show ?thesis by blast
qed

text \<open>
  C6. With \<open>currentLoad = 150000\<close>, baseline 92 and draw \<open>0\<close>: \<open>requests = 150000\<close>,
  \<open>targetPods = 50\<close>, \<open>newPods = 50\<close>, and the CPU usage, \<open>100\<close> before the cap, is
  clamped to \<open>95\<close>.
\<close>

theorem scenario_base_load:
  assumes "currentLoad s = 150000" and "cacheHitRate s = 92"
  shows "tickRequests 0 s = 150000
    \<and> requests (newMetric ts 0 s) = 150000
    \<and> targetPods 0 s = \<lceil>150000 / (3000::real)\<rceil> \<and> targetPods 0 s = 50
    \<and> newPods 0 s = 50
    \<and> pods (newMetric ts 0 s) = 50
    \<and> (tickRequests 0 s / (of_int (newPods 0 s) * 3000)) * 100 = 100
    \<and> tickCpuUsage 0 s = 95
    \<and> cpuUsage (newMetric ts 0 s) = 95"
proof -
  note l = assms(1)
  have raw: "(tickRequests 0 s / (of_int (newPods 0 s) * 3000)) * 100 = 100"
    by (simp add: base_requests base_newPods l)
  have cpu: "tickCpuUsage 0 s = 95"
    by (simp add: tickCpuUsage_def base_requests base_newPods l)
  show ?thesis
    using raw by (simp add: newMetric_def base_requests base_targetPods base_newPods cpu l)
qed

theorem scenario_base_load_witness:
  "currentLoad initialState = 150000 \<and> cacheHitRate initialState = 92
   \<and> requests (newMetric ''20:00:00'' 0 initialState) = 150000
   \<and> targetPods 0 initialState = 50
   \<and> pods (newMetric ''20:00:00'' 0 initialState) = 50
   \<and> cpuUsage (newMetric ''20:00:00'' 0 initialState) = 95"
proof -
  have h1: "currentLoad initialState = 150000" and h2: "cacheHitRate initialState = 92"
    by (simp_all add: initialState_def)
  show ?thesis
    using h1 h2 scenario_base_load [OF h1 h2, of "''20:00:00''"] by simp
qed

text \<open>
  C7. On a tick whose new pod count differs from the stored one, exactly one entry of the
  tick reports the scaling: it is the entry \<open>scalingEntry\<close>, of component K8S, of level
  INFO when the count went up and WARN when it went down; it is the first of the new
  entries, which go to the front of the log; and the stored pod count becomes the new one.
\<close>

theorem scaling_log_entry:
  assumes "newPods rnd s \<noteq> statePods s"
  shows "filter isScalingEntry (newLogs ts rnd s) = [scalingEntry ts rnd s]
    \<and> component (scalingEntry ts rnd s) = K8S
    \<and> level (scalingEntry ts rnd s) = (if statePods s < newPods rnd s then INFO else WARN)
    \<and> newLogs ts rnd s = scalingEntry ts rnd s # otherLogs ts rnd s
    \<and> logs (generateMetrics ts rnd s) = newLogs ts rnd s @ take 49 (logs s)
    \<and> statePods (generateMetrics ts rnd s) = newPods rnd s"
proof -
  have sc: "scalingLog ts rnd s = [scalingEntry ts rnd s]"
    using assms by (simp add: scalingLog_def)
  have "filter isScalingEntry (newLogs ts rnd s) = scalingLog ts rnd s"
    by (simp add: newLogs_def otherLogs_not_scaling scalingLog_is_scaling)
  then have f: "filter isScalingEntry (newLogs ts rnd s) = [scalingEntry ts rnd s]"
    by (simp only: sc)
  have nl: "newLogs ts rnd s = scalingEntry ts rnd s # otherLogs ts rnd s"
    by (simp only: newLogs_def sc append_Cons append_Nil)
  then have "newLogs ts rnd s \<noteq> []"
    by simp
  then have lg: "logs (generateMetrics ts rnd s) = newLogs ts rnd s @ take 49 (logs s)"
    by (simp add: logs_generateMetrics)
  have "component (scalingEntry ts rnd s) = K8S"
    and "level (scalingEntry ts rnd s) = (if statePods s < newPods rnd s then INFO else WARN)"
    by (simp_all add: scalingEntry_def)
  with f nl lg show ?thesis
    by (simp only: statePods_generateMetrics simp_thms)
qed

theorem scaling_log_entry_witness:
  "newPods (1/2) initialState \<noteq> statePods initialState
   \<and> filter isScalingEntry (newLogs ''20:00:00'' (1/2) initialState)
      = [\<lparr>logTimestamp = ''20:00:00'', level = INFO, component = K8S,
          message = ''Scaling up to 59 pods (was 50)''\<rparr>]
   \<and> statePods (generateMetrics ''20:00:00'' (1/2) initialState) = 59"
proof -
  have l: "currentLoad initialState = 150000" and p: "statePods initialState = 50"
    by (simp_all add: initialState_def)
  have n: "newPods (1/2) initialState = 59"
    using l by (rule half_newPods)
  have h: "newPods (1/2) initialState \<noteq> statePods initialState"
    by (simp add: n p)
  have e: "scalingEntry ''20:00:00'' (1/2) initialState
      = \<lparr>logTimestamp = ''20:00:00'', level = INFO, component = K8S,
          message = ''Scaling up to 59 pods (was 50)''\<rparr>"
    by (simp add: scalingEntry_def n p numberToString_59 numberToString_50)
  note r = scaling_log_entry [OF h, of "''20:00:00''"]
  from r have f: "filter isScalingEntry (newLogs ''20:00:00'' (1/2) initialState)
      = [scalingEntry ''20:00:00'' (1/2) initialState]"
    by (rule conjunct1)
  from r have sp: "statePods (generateMetrics ''20:00:00'' (1/2) initialState)
      = newPods (1/2) initialState"
    by blast
  show ?thesis
    using h f sp unfolding e n by blast
qed

text \<open>
  C8. In every reachable state the metrics buffer holds at most 20 samples; a tick puts
  its sample at the end, and when the buffer is full (20 samples) it is the first, the
  oldest, that is dropped.
\<close>

theorem metrics_fifo:
  assumes "reachable s"
  shows "length (metrics s) \<le> 20
    \<and> metrics (generateMetrics ts rnd s)
        = (if length (metrics s) = 20 then tl (metrics s) else metrics s) @ [newMetric ts rnd s]
    \<and> length (metrics (generateMetrics ts rnd s)) \<le> 20"
proof -
  have le: "length (metrics s) \<le> 20"
    using assms by (rule reachable_metrics_bound)
  have "sliceLast19 (metrics s) = (if length (metrics s) = 20 then tl (metrics s) else metrics s)"
  proof (cases "length (metrics s) = 20")
    case True
    then show ?thesis by (simp add: sliceLast19_full)
  next
    case False
    with le have "length (metrics s) \<le> 19" by simp
    with False show ?thesis by (simp add: sliceLast19_short)
  qed
  then have "metrics (generateMetrics ts rnd s)
      = (if length (metrics s) = 20 then tl (metrics s) else metrics s) @ [newMetric ts rnd s]"
    by (simp add: generateMetrics_def)
  moreover have "length (metrics (generateMetrics ts rnd s)) \<le> 20"
    by (simp add: length_metrics_generateMetrics)
  ultimately show ?thesis
    using le by simp
qed

theorem metrics_fifo_witness:
  "reachable fullRun
   \<and> length (metrics fullRun) = 20
   \<and> timestamp (hd (metrics fullRun)) = ''20:00:01''
   \<and> metrics (generateMetrics ''20:00:21'' 0 fullRun)
       = tl (metrics fullRun) @ [newMetric ''20:00:21'' 0 fullRun]
   \<and> length (metrics (generateMetrics ''20:00:21'' 0 fullRun)) = 20
   \<and> map timestamp (metrics (generateMetrics ''20:00:21'' 0 fullRun)) =
     [''20:00:02'', ''20:00:03'', ''20:00:04'', ''20:00:05'', ''20:00:06'',
      ''20:00:07'', ''20:00:08'', ''20:00:09'', ''20:00:10'', ''20:00:11'', ''20:00:12'',
      ''20:00:13'', ''20:00:14'', ''20:00:15'', ''20:00:16'', ''20:00:17'', ''20:00:18'',
      ''20:00:19'', ''20:00:20'', ''20:00:21'']"
proof -
  note h = reachable_fullRun
  have len: "length (metrics fullRun) = 20"
    using arg_cong [OF fullRun_timestamps, of length] by simp
  then have ne: "metrics fullRun \<noteq> []"
    by auto
  have first: "timestamp (hd (metrics fullRun)) = ''20:00:01''"
    using arg_cong [OF fullRun_timestamps, of hd] ne by (simp add: hd_map)
  from metrics_fifo [OF h, of "''20:00:21''" 0] len
  have step: "metrics (generateMetrics ''20:00:21'' 0 fullRun)
      = tl (metrics fullRun) @ [newMetric ''20:00:21'' 0 fullRun]"
    by simp
  have "map timestamp (tl (metrics fullRun)) = tl (map timestamp (metrics fullRun))"
    by (simp add: map_tl)
  then have ts: "map timestamp (metrics (generateMetrics ''20:00:21'' 0 fullRun))
      = tl (map timestamp (metrics fullRun)) @ [''20:00:21'']"
    by (simp add: step newMetric_def)
  have len': "length (metrics (generateMetrics ''20:00:21'' 0 fullRun)) = 20"
    by (simp add: step len)
  show ?thesis
    using h len first step len' ts unfolding fullRun_timestamps by simp
qed

text \<open>
  C9. With the baseline at 92, a non-negative load and a draw in \<open>[0, 1)\<close>, the hit rate
  of the tick lies between 88 and 92, the factor \<open>2.5 - hitRate / 100\<close> is positive, and
  the response time of the sample is not negative.
\<close>

theorem responseTime_nonneg:
  assumes "cacheHitRate s = 92" and "0 \<le> currentLoad s" and "0 \<le> rnd" and "rnd < 1"
  shows "0 \<le> responseTime (newMetric ts rnd s) \<and> 88 \<le> tickHitRate s \<and> tickHitRate s \<le> 92
    \<and> 0 < 2.5 - tickHitRate s / 100"
proof -
  have hr: "88 \<le> tickHitRate s \<and> tickHitRate s \<le> 92"
    using tickHitRate_range [OF assms(2)] assms(1) by simp
  have "0 \<le> tickResponseTime rnd s"
    using assms(1,2) by (simp add: tickResponseTime_nonneg)
  then have "0 \<le> \<lfloor>tickResponseTime rnd s\<rfloor>"
    by simp
  with hr show ?thesis
    by (simp add: newMetric_def)
qed

theorem responseTime_nonneg_witness:
  "cacheHitRate initialState = 92 \<and> 0 \<le> currentLoad initialState
   \<and> (0::real) \<le> 1/2 \<and> (1/2::real) < 1
   \<and> 0 \<le> responseTime (newMetric ''20:00:00'' (1/2) initialState)"
proof -
  have h1: "cacheHitRate initialState = 92" and h2: "0 \<le> currentLoad initialState"
    by (simp_all add: initialState_def)
  show ?thesis
    using h1 h2 responseTime_nonneg [OF h1 h2, of "1/2" "''20:00:00''"] by simp
qed

text \<open>
  C10. No step changes \<open>cacheHitRate\<close>: not a tick, not a control action, not the deferred
  callback. It is 92 in the initial state, hence in every reachable state.
\<close>

theorem cacheHitRate_never_mutated:
  "cacheHitRate initialState = 92
   \<and> (step s e s' \<longrightarrow> cacheHitRate s' = cacheHitRate s)
   \<and> (reachable s \<longrightarrow> cacheHitRate s = 92)"
  by (simp add: step_cacheHitRate reachable_cacheHitRate initialState_def)

theorem cacheHitRate_never_mutated_witness:
  "step (startSimulation initialState) (Tick ''20:00:00'' 0)
     (generateMetrics ''20:00:00'' 0 (startSimulation initialState))
   \<and> reachable (startSimulation initialState)
   \<and> cacheHitRate (generateMetrics ''20:00:00'' 0 (startSimulation initialState))
       = cacheHitRate (startSimulation initialState)
   \<and> cacheHitRate (startSimulation initialState) = 92"
proof -
  have "isRunning (startSimulation initialState)"
    by (simp add: startSimulation_def)
  then have t: "step (startSimulation initialState) (Tick ''20:00:00'' 0)
     (generateMetrics ''20:00:00'' 0 (startSimulation initialState))"
    by (rule step_tick) simp_all
  show ?thesis
    using t reachable_started
      cacheHitRate_never_mutated [of "startSimulation initialState" "Tick ''20:00:00'' 0"
        "generateMetrics ''20:00:00'' 0 (startSimulation initialState)"]
    by simp
qed

end
